theory Spec2Isabelle
  imports Main "HOL-Library.AList"
begin

section \<open>Python values, exceptions and strings\<close>

text \<open>
  The keys and values of the container are Python objects. The model keeps the kinds of
  object the code tells apart: \<open>None\<close> (rejected by the assertions of \<open>__setitem__\<close>),
  strings (the only values \<open>normalize_string\<close> rewrites), integers as an example of a
  non-textual scalar, and the three collections \<open>invert\<close> unpacks: list, tuple and set.
  A set is kept as the list of its elements without repetition; the order of that list
  stands for the iteration order of the set, which Python leaves to the hash function.
  No statement below depends on that order.
\<close>

datatype pyval =
    PNone
  | PInt int
  | PStr string
  | PTuple "pyval list"
  | PList "pyval list"
  | PSet "pyval list"

text \<open>
  A raised exception is a value. \<open>KeyError\<close> carries the key it was raised with.
  \<open>ValueError\<close> carries its message, kept as the literal pieces of the format string
  (\<open>Inl\<close>) and the objects interpolated between them (\<open>Inr\<close>).
\<close>

datatype py_error =
    KeyError pyval
  | ValueError "(string + pyval) list"
  | TypeError
  | AssertionError
  | AttributeError

text \<open>
  Only objects that can be hashed can be keys of a \<open>dict\<close> or elements of a \<open>set\<close>:
  lists and sets cannot, a tuple can when all its elements can. Using any other object
  as a key raises \<open>TypeError\<close>.
\<close>

fun hashable :: "pyval \<Rightarrow> bool" where
  "hashable PNone = True"
| "hashable (PInt _) = True"
| "hashable (PStr _) = True"
| "hashable (PTuple xs) = list_all hashable xs"
| "hashable (PList _) = False"
| "hashable (PSet _) = False"

subsection \<open>String methods\<close>

text \<open>
  Strings are lists of 8-bit characters. \<open>str.isspace\<close> holds, on these code points,
  for 9 to 13, 28 to 32, 133 and 160; \<open>str.strip()\<close> drops such characters from both
  ends. \<open>str.upper()\<close> is modelled on the ASCII letters, which is what it does on ASCII
  text.
\<close>

definition py_isspace :: "char \<Rightarrow> bool" where
  "py_isspace c \<longleftrightarrow>
     c \<in> set [CHR 0x09, CHR 0x0A, CHR 0x0B, CHR 0x0C, CHR 0x0D,
               CHR 0x1C, CHR 0x1D, CHR 0x1E, CHR 0x1F, CHR 0x20, CHR 0x85, CHR 0xA0]"

definition py_strip :: "string \<Rightarrow> string" where
  "py_strip s = rev (dropWhile py_isspace (rev (dropWhile py_isspace s)))"

definition py_upper_char :: "char \<Rightarrow> char" where
  "py_upper_char c =
     (case map_of (zip ''abcdefghijklmnopqrstuvwxyz'' ''ABCDEFGHIJKLMNOPQRSTUVWXYZ'') c of
        None \<Rightarrow> c
      | Some u \<Rightarrow> u)"

definition py_upper :: "string \<Rightarrow> string" where
  "py_upper s = map py_upper_char s"

text \<open>\<open>name.replace(char, "")\<close> for a one-character string \<open>char\<close>.\<close>

definition py_replace_char :: "char \<Rightarrow> string \<Rightarrow> string" where
  "py_replace_char char name = filter (\<lambda>c. c \<noteq> char) name"

subsection \<open>The \<open>%\<close> operator on format strings\<close>

text \<open>
  The format strings of the code use the conversion \<open>%s\<close> only. \<open>py_format_split\<close>
  cuts a format at its conversions, so a format with \<open>n\<close> conversions gives \<open>n + 1\<close>
  literal pieces. The operator raises \<open>TypeError\<close> when the number of arguments is not
  the number of conversions.
\<close>

fun py_format_split :: "string \<Rightarrow> string \<Rightarrow> string list" where
  "py_format_split acc [] = [rev acc]"
| "py_format_split acc [c] = [rev (c # acc)]"
| "py_format_split acc (c # d # rest) =
     (if c = CHR ''%'' \<and> d = CHR ''s'' then rev acc # py_format_split [] rest
      else py_format_split (c # acc) (d # rest))"

fun py_interleave :: "string list \<Rightarrow> 'a list \<Rightarrow> (string + 'a) list" where
  "py_interleave (p # ps) (a # as) = Inl p # Inr a # py_interleave ps as"
| "py_interleave ps _ = map Inl ps"

definition py_format :: "string \<Rightarrow> 'a list \<Rightarrow> py_error + (string + 'a) list" where
  "py_format fmt args =
     (let pieces = py_format_split [] fmt in
      if length pieces \<noteq> Suc (length args) then Inl TypeError
      else Inr (py_interleave pieces args))"

text \<open>With string arguments, \<open>%s\<close> inserts each argument as it is.\<close>

definition py_format_str :: "string \<Rightarrow> string list \<Rightarrow> py_error + string" where
  "py_format_str fmt args =
     (case py_format fmt args of
        Inl e \<Rightarrow> Inl e
      | Inr parts \<Rightarrow> Inr (concat (map (case_sum id id) parts)))"

section \<open>The normalizer\<close>

text \<open>
  \<open>normalize_string(name, chars_to_remove="-_'")\<close> of \<open>normalizing_dictionary.py\<close>.
  \<open>" " in name\<close> asks for the space character. The loop over \<open>chars_to_remove\<close> is
  \<open>remove_chars\<close>.
\<close>

fun remove_chars :: "string \<Rightarrow> string \<Rightarrow> string" where
  "remove_chars [] name = name"
| "remove_chars (char # cs) name =
     remove_chars cs (if char \<in> set name then py_replace_char char name else name)"

definition normalize_string :: "pyval \<Rightarrow> string \<Rightarrow> pyval" where
  "normalize_string name chars_to_remove =
     (case name of
        PStr s \<Rightarrow>
          (let s1 = (if CHR '' '' \<in> set s then py_strip s else s);
               s2 = py_upper s1
           in PStr (remove_chars chars_to_remove s2))
      | _ \<Rightarrow> name)"

text \<open>The call with one argument takes the default removal set: hyphen, underscore, apostrophe.\<close>

definition default_chars_to_remove :: string where
  "default_chars_to_remove = [CHR ''-'', CHR ''_'', CHR 0x27]"

definition normalize_string_default :: "pyval \<Rightarrow> pyval" where
  "normalize_string_default name = normalize_string name default_chars_to_remove"

text \<open>
  The normalizer as the specification words it, for comparison: leading and trailing
  whitespace is stripped whenever any whitespace character occurs in the string, then the
  string is upper-cased and every character of the removal set is removed.
\<close>

definition normalize_string_spec :: "pyval \<Rightarrow> string \<Rightarrow> pyval" where
  "normalize_string_spec name chars_to_remove =
     (case name of
        PStr s \<Rightarrow>
          PStr (filter (\<lambda>c. c \<notin> set chars_to_remove)
                  (py_upper (if \<exists>c \<in> set s. py_isspace c then py_strip s else s)))
      | _ \<Rightarrow> name)"

section \<open>Locus and AlleleGroup\<close>

text \<open>
  Modelled from the spec: the class \<open>Locus\<close> of \<open>locus.py\<close>, which \<open>allele_group.py\<close>
  imports and which is not among the sources. Its fields are \<open>species_prefix\<close> and
  \<open>gene_name\<close>; \<open>normalized_string\<close> renders \<open>"{species}-{gene}"\<close> when the species is
  included and \<open>"{gene}"\<close> otherwise; \<open>compact_string\<close> renders the same content with
  the separator removed.

  \<open>AlleleGroup\<close> calls both methods through the class, \<open>Locus.normalized_string(self, ...)\<close>,
  so the model gives each method the list of positional arguments of the call: the method
  needs exactly one, its \<open>self\<close>, and a call with any other number raises \<open>TypeError\<close>.
\<close>

record Locus =
  species_prefix :: string
  gene_name :: string

text \<open>
  Modelled from the spec: \<open>Locus.normalized_string(self, include_species=True)\<close>, absent
  from the sources; it renders \<open>"{species}-{gene}"\<close>, or \<open>"{gene}"\<close> without the species.
\<close>

definition Locus_normalized_string ::
  "'a Locus_scheme list \<Rightarrow> bool \<Rightarrow> py_error + string" where
  "Locus_normalized_string args include_species =
     (case args of
        [self] \<Rightarrow>
          (if include_species
           then py_format_str ''%s-%s'' [species_prefix self, gene_name self]
           else Inr (gene_name self))
      | _ \<Rightarrow> Inl TypeError)"

text \<open>
  Modelled from the spec: \<open>Locus.compact_string(self, include_species=True)\<close>, absent from
  the sources; it renders \<open>"{species}{gene}"\<close>, or \<open>"{gene}"\<close> without the species.
\<close>

definition Locus_compact_string ::
  "'a Locus_scheme list \<Rightarrow> bool \<Rightarrow> py_error + string" where
  "Locus_compact_string args include_species =
     (case args of
        [self] \<Rightarrow>
          (if include_species
           then py_format_str ''%s%s'' [species_prefix self, gene_name self]
           else Inr (gene_name self))
      | _ \<Rightarrow> Inl TypeError)"

text \<open>
  \<open>AlleleGroup\<close> of \<open>allele_group.py\<close>. \<open>normalized_string\<close> passes \<open>self\<close> to the method
  of \<open>Locus\<close>; \<open>compact_string\<close> calls \<open>Locus.compact_string(include_species=...)\<close> with
  no positional argument.
\<close>

record AlleleGroup = Locus +
  group_id :: string

definition AlleleGroup_normalized_string :: "AlleleGroup \<Rightarrow> bool \<Rightarrow> py_error + string" where
  "AlleleGroup_normalized_string self include_species =
     (case Locus_normalized_string [self] include_species of
        Inl e \<Rightarrow> Inl e
      | Inr locus_string \<Rightarrow> py_format_str ''%s*%s'' [locus_string, group_id self])"

definition AlleleGroup_compact_string :: "AlleleGroup \<Rightarrow> bool \<Rightarrow> py_error + string" where
  "AlleleGroup_compact_string self include_species =
     (case Locus_compact_string ([] :: AlleleGroup list) include_species of
        Inl e \<Rightarrow> Inl e
      | Inr locus_string \<Rightarrow> py_format_str ''%s%s'' [locus_string, group_id self])"

section \<open>The normalizing dictionary\<close>

text \<open>
  The state of a \<open>NormalizingDictionary\<close>. Each \<open>dict\<close> is an association list in
  insertion order, every key occurring once. \<open>normalized_to_original_keys_dict\<close> is a
  \<open>defaultdict(set)\<close>: its values are sets of original keys, kept as lists without
  repetition. \<open>default_value_fn\<close> is \<open>None\<close> or a factory called without arguments;
  the model keeps the object the factory creates, so \<open>set\<close> is \<open>Some (PSet [])\<close>.

  A method returns its outcome, the value or the exception raised, together with the
  state the object is left in. \<open>normalized_keys()\<close> and \<open>values()\<close> are the first and
  second components of the store, in its order. The methods \<open>update\<close>, \<open>get\<close>, \<open>keys\<close>,
  \<open>__iter__\<close>, \<open>from_dict\<close> and \<open>__str__\<close> take no part in the statements below and
  are left out.
\<close>

record normalizing_dictionary =
  store :: "(pyval \<times> pyval) list"
  original_to_normalized_key_dict :: "(pyval \<times> pyval) list"
  normalized_to_original_keys_dict :: "(pyval \<times> pyval list) list"
  normalize_fn :: "pyval \<Rightarrow> pyval"
  default_value_fn :: "pyval option"

type_synonym 'a outcome = "(py_error + 'a) \<times> normalizing_dictionary"

text \<open>\<open>s.add(k)\<close> on the elements of a set.\<close>

definition set_add :: "'a \<Rightarrow> 'a list \<Rightarrow> 'a list" where
  "set_add k ks = (if k \<in> set ks then ks else ks @ [k])"

text \<open>
  \<open>__setitem__\<close>. The two assertions come first. Writing \<open>k\<close> into the first index
  hashes \<open>k\<close>; reading the \<open>defaultdict\<close> at \<open>k_normalized\<close> hashes \<open>k_normalized\<close>
  and creates the empty set when the key is new.
\<close>

definition setitem :: "normalizing_dictionary \<Rightarrow> pyval \<Rightarrow> pyval \<Rightarrow> unit outcome" where
  "setitem self k v =
     (if k = PNone then (Inl AssertionError, self)
      else if v = PNone then (Inl AssertionError, self)
      else
        let k_normalized = normalize_fn self k in
        if \<not> hashable k then (Inl TypeError, self)
        else
          let self1 = self\<lparr>original_to_normalized_key_dict :=
                  AList.update k k_normalized (original_to_normalized_key_dict self)\<rparr> in
          if \<not> hashable k_normalized then (Inl TypeError, self1)
          else
            let ks = (case map_of (normalized_to_original_keys_dict self1) k_normalized of
                        None \<Rightarrow> []
                      | Some ks \<Rightarrow> ks);
                self2 = self1\<lparr>normalized_to_original_keys_dict :=
                  AList.update k_normalized (set_add k ks)
                    (normalized_to_original_keys_dict self1)\<rparr>;
                self3 = self2\<lparr>store := AList.update k_normalized v (store self2)\<rparr>
            in (Inr (), self3))"

text \<open>\<open>update_pairs\<close> and \<open>__init__\<close>: the pairs are inserted in order by \<open>__setitem__\<close>.\<close>

fun update_pairs :: "normalizing_dictionary \<Rightarrow> (pyval \<times> pyval) list \<Rightarrow> unit outcome" where
  "update_pairs self [] = (Inr (), self)"
| "update_pairs self ((k, v) # pairs) =
     (case setitem self k v of
        (Inl e, self') \<Rightarrow> (Inl e, self')
      | (Inr _, self') \<Rightarrow> update_pairs self' pairs)"

definition NormalizingDictionary ::
  "(pyval \<times> pyval) list \<Rightarrow> (pyval \<Rightarrow> pyval) \<Rightarrow> pyval option \<Rightarrow> py_error + normalizing_dictionary"
where
  "NormalizingDictionary pairs normalize_fn' default_value_fn' =
     (case update_pairs
             \<lparr>store = [], original_to_normalized_key_dict = [],
              normalized_to_original_keys_dict = [],
              normalize_fn = normalize_fn', default_value_fn = default_value_fn'\<rparr> pairs of
        (Inl e, _) \<Rightarrow> Inl e
      | (Inr _, self) \<Rightarrow> Inr self)"

text \<open>\<open>__getitem__\<close>: a miss with a factory stores the new default before returning it.\<close>

definition getitem :: "normalizing_dictionary \<Rightarrow> pyval \<Rightarrow> pyval outcome" where
  "getitem self k =
     (let k_normalized = normalize_fn self k in
      if \<not> hashable k_normalized then (Inl TypeError, self)
      else
        (case map_of (store self) k_normalized of
           Some v \<Rightarrow> (Inr v, self)
         | None \<Rightarrow>
             (case default_value_fn self of
                Some dv \<Rightarrow> (Inr dv, self\<lparr>store := AList.update k_normalized dv (store self)\<rparr>)
              | None \<Rightarrow> (Inl (KeyError k), self))))"

text \<open>\<open>__contains__\<close>, \<open>__len__\<close> and \<open>original_keys\<close> read the state and leave it as it is.\<close>

definition contains :: "normalizing_dictionary \<Rightarrow> pyval \<Rightarrow> py_error + bool" where
  "contains self k =
     (let k_normalized = normalize_fn self k in
      if \<not> hashable k_normalized then Inl TypeError
      else Inr (map_of (store self) k_normalized \<noteq> None))"

definition len :: "normalizing_dictionary \<Rightarrow> nat" where
  "len self = length (store self)"

definition original_keys :: "normalizing_dictionary \<Rightarrow> pyval \<Rightarrow> py_error + pyval list" where
  "original_keys self k =
     (let k_normalized = normalize_fn self k in
      if \<not> hashable k_normalized then Inl TypeError
      else
        (case map_of (normalized_to_original_keys_dict self) k_normalized of
           None \<Rightarrow> Inr []
         | Some original_keys' \<Rightarrow> Inr original_keys'))"

text \<open>
  \<open>original_key\<close>. The message of the \<open>ValueError\<close> is built with \<open>%\<close> from a format
  with two conversions and the one-element tuple \<open>(ks,)\<close>.
\<close>

definition original_key_format :: string where
  "original_key_format =
     ''Key '' @ [CHR 0x27] @ ''%s'' @ [CHR 0x27] @ '' matches multiple entries: %s''"

definition original_key :: "normalizing_dictionary \<Rightarrow> pyval \<Rightarrow> py_error + pyval" where
  "original_key self k =
     (case original_keys self k of
        Inl e \<Rightarrow> Inl e
      | Inr ks \<Rightarrow>
          if length ks = 0 then Inl (KeyError k)
          else if length ks > 1 then
            (case py_format original_key_format [PList ks] of
               Inl e \<Rightarrow> Inl e
             | Inr message \<Rightarrow> Inl (ValueError message))
          else Inr (hd ks))"

text \<open>
  \<open>key_sets_aligned_with_values\<close> indexes the \<open>defaultdict\<close> with every key of the
  store, so a key without an entry gets the empty set as its entry.
\<close>

fun key_sets_loop ::
  "pyval list \<Rightarrow> (pyval \<times> pyval list) list \<Rightarrow> pyval list list \<times> (pyval \<times> pyval list) list"
where
  "key_sets_loop [] d = ([], d)"
| "key_sets_loop (k # ks) d =
     (case map_of d k of
        Some key_set \<Rightarrow>
          (case key_sets_loop ks d of (key_sets, d') \<Rightarrow> (key_set # key_sets, d'))
      | None \<Rightarrow>
          (case key_sets_loop ks (AList.update k [] d) of
             (key_sets, d') \<Rightarrow> ([] # key_sets, d')))"

definition key_sets_aligned_with_values ::
  "normalizing_dictionary \<Rightarrow> pyval list list \<times> normalizing_dictionary" where
  "key_sets_aligned_with_values self =
     (case key_sets_loop (map fst (store self)) (normalized_to_original_keys_dict self) of
        (key_sets, d') \<Rightarrow> (key_sets, self\<lparr>normalized_to_original_keys_dict := d'\<rparr>))"

text \<open>
  \<open>keys_aligned_with_values\<close> is a generator: each step asserts that the key set is not
  empty and yields its first element. The model lists the outcome of every step; a
  consumer stops at the first step that raises. \<open>items\<close> zips the steps with the values
  of the store. \<open>list(ks)[0]\<close> is the first element of the set in its iteration order,
  here the head of the list that stands for the set; which original key that is in
  Python depends on the hashes, and no statement below relies on it.
\<close>

definition keys_aligned_with_values ::
  "normalizing_dictionary \<Rightarrow> (py_error + pyval) list \<times> normalizing_dictionary" where
  "keys_aligned_with_values self =
     (case key_sets_aligned_with_values self of
        (list_of_key_sets, self') \<Rightarrow>
          (map (\<lambda>ks. case ks of [] \<Rightarrow> Inl AssertionError | k # _ \<Rightarrow> Inr k) list_of_key_sets,
           self'))"

definition items ::
  "normalizing_dictionary \<Rightarrow> (py_error + pyval \<times> pyval) list \<times> normalizing_dictionary" where
  "items self =
     (case keys_aligned_with_values self of
        (steps, self') \<Rightarrow>
          (map (\<lambda>(step, v). case step of Inl e \<Rightarrow> Inl e | Inr k \<Rightarrow> Inr (k, v))
             (zip steps (map snd (store self))),
           self'))"

text \<open>
  \<open>invert\<close>. \<open>result[vi].add(k)\<close> reads the set stored under the normalized \<open>vi\<close>
  (created by the factory on a miss) and adds \<open>k\<close> to that stored object. An object
  without the method \<open>add\<close> raises \<open>AttributeError\<close>.
\<close>

definition method_add :: "pyval \<Rightarrow> pyval \<Rightarrow> py_error + pyval" where
  "method_add obj k =
     (case obj of
        PSet xs \<Rightarrow> if hashable k then Inr (PSet (set_add k xs)) else Inl TypeError
      | _ \<Rightarrow> Inl AttributeError)"

fun invert_values ::
  "pyval list \<Rightarrow> pyval \<Rightarrow> normalizing_dictionary \<Rightarrow> py_error + normalizing_dictionary" where
  "invert_values [] k result = Inr result"
| "invert_values (vi # values) k result =
     (case getitem result vi of
        (Inl e, _) \<Rightarrow> Inl e
      | (Inr obj, result') \<Rightarrow>
          (case method_add obj k of
             Inl e \<Rightarrow> Inl e
           | Inr obj' \<Rightarrow>
               invert_values values k
                 (result'\<lparr>store :=
                    AList.update (normalize_fn result' vi) obj' (store result')\<rparr>)))"

definition values_of :: "pyval \<Rightarrow> pyval list" where
  "values_of v =
     (case v of PList xs \<Rightarrow> xs | PTuple xs \<Rightarrow> xs | PSet xs \<Rightarrow> xs | _ \<Rightarrow> [v])"

fun invert_loop ::
  "(py_error + pyval \<times> pyval) list \<Rightarrow> normalizing_dictionary \<Rightarrow>
   py_error + normalizing_dictionary" where
  "invert_loop [] result = Inr result"
| "invert_loop (Inl e # _) result = Inl e"
| "invert_loop (Inr (k, v) # rest) result =
     (case invert_values (values_of v) k result of
        Inl e \<Rightarrow> Inl e
      | Inr result' \<Rightarrow> invert_loop rest result')"

definition invert :: "normalizing_dictionary \<Rightarrow> normalizing_dictionary outcome" where
  "invert self =
     (case NormalizingDictionary [] (normalize_fn self) (Some (PSet [])) of
        Inl e \<Rightarrow> (Inl e, self)
      | Inr result \<Rightarrow>
          (case items self of (pairs, self') \<Rightarrow> (invert_loop pairs result, self')))"

text \<open>
  \<open>map_values\<close> and \<open>map_keys\<close> collect the pairs of \<open>items\<close> in a list, which stops
  at the first step that raises, and build a new container from the mapped pairs.
\<close>

fun collect_items :: "(py_error + pyval \<times> pyval) list \<Rightarrow> py_error + (pyval \<times> pyval) list" where
  "collect_items [] = Inr []"
| "collect_items (Inl e # _) = Inl e"
| "collect_items (Inr p # rest) =
     (case collect_items rest of Inl e \<Rightarrow> Inl e | Inr ps \<Rightarrow> Inr (p # ps))"

definition map_values ::
  "normalizing_dictionary \<Rightarrow> (pyval \<Rightarrow> pyval) \<Rightarrow> normalizing_dictionary outcome" where
  "map_values self fn =
     (case items self of
        (its, self') \<Rightarrow>
          ((case collect_items its of
              Inl e \<Rightarrow> Inl e
            | Inr ps \<Rightarrow>
                NormalizingDictionary (map (\<lambda>(k, v). (k, fn v)) ps)
                  (normalize_fn self) (default_value_fn self)),
           self'))"

definition map_keys ::
  "normalizing_dictionary \<Rightarrow> (pyval \<Rightarrow> pyval) \<Rightarrow> normalizing_dictionary outcome" where
  "map_keys self fn =
     (case items self of
        (its, self') \<Rightarrow>
          ((case collect_items its of
              Inl e \<Rightarrow> Inl e
            | Inr ps \<Rightarrow>
                NormalizingDictionary (map (\<lambda>(k, v). (fn k, v)) ps)
                  (normalize_fn self) (default_value_fn self)),
           self'))"

text \<open>Calls on the outcome of a constructor or of \<open>invert\<close>, as in \<open>d.invert().invert()\<close>.\<close>

definition then_len :: "py_error + normalizing_dictionary \<Rightarrow> py_error + nat" where
  "then_len r = (case r of Inl e \<Rightarrow> Inl e | Inr self \<Rightarrow> Inr (len self))"

definition then_getitem :: "py_error + normalizing_dictionary \<Rightarrow> pyval \<Rightarrow> py_error + pyval" where
  "then_getitem r k = (case r of Inl e \<Rightarrow> Inl e | Inr self \<Rightarrow> fst (getitem self k))"

definition then_original_key ::
  "py_error + normalizing_dictionary \<Rightarrow> pyval \<Rightarrow> py_error + pyval" where
  "then_original_key r k = (case r of Inl e \<Rightarrow> Inl e | Inr self \<Rightarrow> original_key self k)"

definition then_invert ::
  "py_error + normalizing_dictionary \<Rightarrow> py_error + normalizing_dictionary" where
  "then_invert r = (case r of Inl e \<Rightarrow> Inl e | Inr self \<Rightarrow> fst (invert self))"

definition then_store ::
  "py_error + normalizing_dictionary \<Rightarrow> py_error + (pyval \<times> pyval) list" where
  "then_store r = (case r of Inl e \<Rightarrow> Inl e | Inr self \<Rightarrow> Inr (store self))"

text \<open>
  The invariant that \<open>keys_aligned_with_values\<close> asserts for every key of the store:
  the key has an entry in \<open>normalized_to_original_keys_dict\<close>, and the entry is not
  empty.
\<close>

definition invariant :: "normalizing_dictionary \<Rightarrow> bool" where
  "invariant self =
     list_all
       (\<lambda>k. case map_of (normalized_to_original_keys_dict self) k of
               None \<Rightarrow> False
             | Some ks \<Rightarrow> ks \<noteq> [])
       (map fst (store self))"

definition then_invariant :: "py_error + normalizing_dictionary \<Rightarrow> py_error + bool" where
  "then_invariant r = (case r of Inl e \<Rightarrow> Inl e | Inr self \<Rightarrow> Inr (invariant self))"

section \<open>Properties of the normalizer\<close>

lemma remove_chars_filter:
  "remove_chars cs name = filter (\<lambda>c. c \<notin> set cs) name"
proof (induction cs arbitrary: name)
  case Nil
  show ?case by simp
next
  case (Cons char cs)
  have "filter (\<lambda>c. c \<noteq> char) name = name" if "char \<notin> set name"
    using that by (induction name) auto
  then show ?case
    by (auto simp: Cons.IH py_replace_char_def intro: filter_cong)
qed

lemma normalize_string_not_text:
  "\<forall>s. name \<noteq> PStr s \<Longrightarrow> normalize_string name chars_to_remove = name"
  by (cases name) (simp_all add: normalize_string_def)

lemma normalize_string_text:
  "normalize_string (PStr s) chars_to_remove =
     PStr (filter (\<lambda>c. c \<notin> set chars_to_remove)
             (py_upper (if CHR '' '' \<in> set s then py_strip s else s)))"
  by (simp add: normalize_string_def remove_chars_filter)

text \<open>
  C8. The normalizer is not idempotent. On \<open>"- a"\<close> the space lets \<open>strip\<close> run, which
  finds nothing to strip because the hyphen comes first; removing the hyphen afterwards
  leaves \<open>" A"\<close>, with a leading space, and a second call strips it to \<open>"A"\<close>.
\<close>

theorem normalize_string_twice_differs:
  "normalize_string_default (PStr ''- a'') = PStr '' A'' \<and>
   normalize_string_default (normalize_string_default (PStr ''- a'')) = PStr ''A''"
  by code_simp

text \<open>
  C9. The code strips only when the space character occurs in the string. On \<open>"a\n"\<close>,
  where the only whitespace is the newline, nothing is stripped and the result keeps the
  newline, where stripping whenever any whitespace occurs gives \<open>"A"\<close>.
\<close>

theorem normalize_string_keeps_newline:
  "normalize_string_default (PStr [CHR ''a'', CHR 0x0A]) = PStr [CHR ''A'', CHR 0x0A] \<and>
   normalize_string_spec (PStr [CHR ''a'', CHR 0x0A]) default_chars_to_remove = PStr ''A''"
  by (simp add: normalize_string_default_def normalize_string_def normalize_string_spec_def
      default_chars_to_remove_def py_strip_def py_isspace_def py_upper_def py_upper_char_def
      py_replace_char_def)

section \<open>Properties of AlleleGroup\<close>

text \<open>
  C1. For the allele group \<open>("HLA", "A", "02")\<close>, \<open>normalized_string()\<close> returns
  \<open>"HLA-A*02"\<close>, and \<open>compact_string()\<close> raises \<open>TypeError\<close> instead of returning
  \<open>"HLAA02"\<close>: the call to \<open>Locus.compact_string\<close> does not pass \<open>self\<close>. It raises
  for every allele group \<open>self\<close> and either value of \<open>include_species\<close>.
\<close>

theorem AlleleGroup_compact_string_raises:
  "AlleleGroup_normalized_string
     \<lparr>species_prefix = ''HLA'', gene_name = ''A'', group_id = ''02''\<rparr> True = Inr ''HLA-A*02'' \<and>
   AlleleGroup_compact_string
     \<lparr>species_prefix = ''HLA'', gene_name = ''A'', group_id = ''02''\<rparr> True = Inl TypeError \<and>
   AlleleGroup_compact_string self include_species = Inl TypeError"
  by (simp add: AlleleGroup_normalized_string_def AlleleGroup_compact_string_def
      Locus_normalized_string_def Locus_compact_string_def py_format_str_def py_format_def)

section \<open>Properties of the dictionary\<close>

subsection \<open>Association lists and sets\<close>

lemma update_absent:
  "map_of al k = None \<Longrightarrow> AList.update k v al = al @ [(k, v)]"
  by (induction al) (auto split: if_splits)

lemma filter_update_distinct:
  "distinct (map fst al) \<Longrightarrow> filter (\<lambda>p. fst p = k) (AList.update k v al) = [(k, v)]"
proof (induction al)
  case Nil
  show ?case by simp
next
  case (Cons p al)
  show ?case
  proof (cases "fst p = k")
    case True
    with Cons.prems have "k \<notin> fst ` set al" by auto
    then have "filter (\<lambda>p. fst p = k) al = []"
      by (auto simp: filter_empty_conv)
    with True show ?thesis by simp
  next
    case False
    with Cons show ?thesis by simp
  qed
qed

lemma neq_by_member: "x \<in> A \<Longrightarrow> x \<notin> B \<Longrightarrow> A \<noteq> B"
  by blast

lemma set_set_add: "set (set_add k ks) = insert k (set ks)"
  by (auto simp: set_add_def)

lemma setitem_original_keys:
  assumes "k \<noteq> PNone" "v \<noteq> PNone" "hashable k" "hashable (normalize_fn self k)"
    and "original_keys self k = Inr ks"
  shows "original_keys (snd (setitem self k v)) k = Inr (set_add k ks)"
  using assms
  by (auto simp: setitem_def original_keys_def Let_def update_conv' split: option.splits)

subsection \<open>Construction and lookup\<close>

text \<open>
  C2, as stated: the pairs \<open>("hla-a", 1)\<close>, \<open>("HLA_A", 2)\<close>, \<open>("hla a", 3)\<close> with the
  default normalizer do not give a container of size 1 in which \<open>"HLAA"\<close> is 3.
\<close>

theorem three_spellings_counterexample:
  "\<not> (then_len (NormalizingDictionary
           [(PStr ''hla-a'', PInt 1), (PStr ''HLA_A'', PInt 2), (PStr ''hla a'', PInt 3)]
           normalize_string_default None) = Inr 1 \<and>
       then_getitem (NormalizingDictionary
           [(PStr ''hla-a'', PInt 1), (PStr ''HLA_A'', PInt 2), (PStr ''hla a'', PInt 3)]
           normalize_string_default None) (PStr ''HLAA'') = Inr (PInt 3))"
  by code_simp

text \<open>
  C2, amended: the normalizer strips surrounding whitespace only, so \<open>"hla a"\<close> keeps its
  inner space and is stored as \<open>"HLA A"\<close>, apart from \<open>"HLAA"\<close>. The container has
  size 2, \<open>"HLAA"\<close> is 2 (the last of the two spellings that share it) and \<open>"hla a"\<close> is 3.
\<close>

theorem three_spellings:
  "then_len (NormalizingDictionary
      [(PStr ''hla-a'', PInt 1), (PStr ''HLA_A'', PInt 2), (PStr ''hla a'', PInt 3)]
      normalize_string_default None) = Inr 2 \<and>
   then_store (NormalizingDictionary
      [(PStr ''hla-a'', PInt 1), (PStr ''HLA_A'', PInt 2), (PStr ''hla a'', PInt 3)]
      normalize_string_default None) = Inr [(PStr ''HLAA'', PInt 2), (PStr ''HLA A'', PInt 3)] \<and>
   then_getitem (NormalizingDictionary
      [(PStr ''hla-a'', PInt 1), (PStr ''HLA_A'', PInt 2), (PStr ''hla a'', PInt 3)]
      normalize_string_default None) (PStr ''HLAA'') = Inr (PInt 2) \<and>
   then_getitem (NormalizingDictionary
      [(PStr ''hla-a'', PInt 1), (PStr ''HLA_A'', PInt 2), (PStr ''hla a'', PInt 3)]
      normalize_string_default None) (PStr ''hla a'') = Inr (PInt 3)"
  by code_simp

text \<open>
  C6, as stated, for a container that already holds the original key \<open>"A"\<close>: inserting
  \<open>("a", 1)\<close> and then \<open>("a-", 2)\<close>, two keys with the normalized form \<open>"A"\<close>, succeeds
  and leaves the value 2, but \<open>original_keys("a")\<close> is \<open>{"A", "a", "a-"}\<close>, not
  \<open>{"a", "a-"}\<close>.
\<close>

theorem setitem_twice_counterexample:
  "normalize_string_default (PStr ''a'') = normalize_string_default (PStr ''a-'') \<and>
   fst (setitem
     \<lparr>store = [(PStr ''A'', PInt 0)],
      original_to_normalized_key_dict = [(PStr ''A'', PStr ''A'')],
      normalized_to_original_keys_dict = [(PStr ''A'', [PStr ''A''])],
      normalize_fn = normalize_string_default, default_value_fn = None\<rparr>
     (PStr ''a'') (PInt 1)) = Inr () \<and>
   fst (setitem (snd (setitem
     \<lparr>store = [(PStr ''A'', PInt 0)],
      original_to_normalized_key_dict = [(PStr ''A'', PStr ''A'')],
      normalized_to_original_keys_dict = [(PStr ''A'', [PStr ''A''])],
      normalize_fn = normalize_string_default, default_value_fn = None\<rparr>
     (PStr ''a'') (PInt 1))) (PStr ''a-'') (PInt 2)) = Inr () \<and>
   store (snd (setitem (snd (setitem
     \<lparr>store = [(PStr ''A'', PInt 0)],
      original_to_normalized_key_dict = [(PStr ''A'', PStr ''A'')],
      normalized_to_original_keys_dict = [(PStr ''A'', [PStr ''A''])],
      normalize_fn = normalize_string_default, default_value_fn = None\<rparr>
     (PStr ''a'') (PInt 1))) (PStr ''a-'') (PInt 2))) = [(PStr ''A'', PInt 2)] \<and>
   map_sum id set (original_keys (snd (setitem (snd (setitem
     \<lparr>store = [(PStr ''A'', PInt 0)],
      original_to_normalized_key_dict = [(PStr ''A'', PStr ''A'')],
      normalized_to_original_keys_dict = [(PStr ''A'', [PStr ''A''])],
      normalize_fn = normalize_string_default, default_value_fn = None\<rparr>
     (PStr ''a'') (PInt 1))) (PStr ''a-'') (PInt 2))) (PStr ''a'')) =
     Inr {PStr ''A'', PStr ''a'', PStr ''a-''} \<and>
   map_sum id set (original_keys (snd (setitem (snd (setitem
     \<lparr>store = [(PStr ''A'', PInt 0)],
      original_to_normalized_key_dict = [(PStr ''A'', PStr ''A'')],
      normalized_to_original_keys_dict = [(PStr ''A'', [PStr ''A''])],
      normalize_fn = normalize_string_default, default_value_fn = None\<rparr>
     (PStr ''a'') (PInt 1))) (PStr ''a-'') (PInt 2))) (PStr ''a'')) \<noteq>
     Inr {PStr ''a'', PStr ''a-''}"
proof -
  have n: "normalize_string_default (PStr ''a'') = PStr ''A''"
    "normalize_string_default (PStr ''a-'') = PStr ''A''"
    by code_simp+
  have d: "{PStr ''A'', PStr ''a'', PStr ''a-''} \<noteq> {PStr ''a'', PStr ''a-''}"
    by (rule neq_by_member [of "PStr ''A''"]) simp_all
  show ?thesis
    by (simp add: n setitem_def original_keys_def set_add_def Let_def d)
qed

text \<open>
  C6, amended. Let \<open>k1\<close> and \<open>k2\<close> be keys (hashable, not \<open>None\<close>) with the same normalized
  form, and \<open>v1\<close>, \<open>v2\<close> values (not \<open>None\<close>). In every container, inserting \<open>(k1, v1)\<close>
  and then \<open>(k2, v2)\<close> succeeds, leaves exactly one entry of the store for the normalized
  form, with value \<open>v2\<close>, which a lookup of \<open>k1\<close> returns, and \<open>original_keys(k1)\<close> is
  the set it was before together with \<open>k1\<close> and \<open>k2\<close>. In a container without original
  keys of that normalized form, such as a new one, that set is \<open>{k1, k2}\<close>.
\<close>

theorem setitem_twice:
  assumes keys: "k1 \<noteq> PNone" "k2 \<noteq> PNone" "hashable k1" "hashable k2"
    and vals: "v1 \<noteq> PNone" "v2 \<noteq> PNone"
    and same: "normalize_fn self k1 = normalize_fn self k2"
    and hn: "hashable (normalize_fn self k1)"
    and dist: "distinct (map fst (store self))"
  shows "\<exists>self1 self2 ks0 ks.
           setitem self k1 v1 = (Inr (), self1) \<and>
           setitem self1 k2 v2 = (Inr (), self2) \<and>
           filter (\<lambda>p. fst p = normalize_fn self k1) (store self2) = [(normalize_fn self k1, v2)] \<and>
           fst (getitem self2 k1) = Inr v2 \<and>
           original_keys self k1 = Inr ks0 \<and>
           original_keys self2 k1 = Inr ks \<and>
           set ks = set ks0 \<union> {k1, k2}"
proof -
  let ?nk = "normalize_fn self k1"
  define ks0 where
    "ks0 = (case map_of (normalized_to_original_keys_dict self) ?nk of
              None \<Rightarrow> [] | Some ks \<Rightarrow> ks)"
  have o0: "original_keys self k1 = Inr ks0"
    using hn by (simp add: original_keys_def ks0_def split: option.splits)
  define self1 where "self1 = snd (setitem self k1 v1)"
  define self2 where "self2 = snd (setitem self1 k2 v2)"
  have s1: "setitem self k1 v1 = (Inr (), self1)"
    using keys vals hn by (simp add: self1_def setitem_def Let_def)
  have nf1: "normalize_fn self1 = normalize_fn self"
    using keys vals hn by (simp add: self1_def setitem_def Let_def)
  have n1: "map_of (normalized_to_original_keys_dict self1) ?nk = Some (set_add k1 ks0)"
    using keys vals hn by (simp add: self1_def setitem_def Let_def update_conv' ks0_def)
  have st1: "store self1 = AList.update ?nk v1 (store self)"
    using keys vals hn by (simp add: self1_def setitem_def Let_def)
  have s2: "setitem self1 k2 v2 = (Inr (), self2)"
    using keys vals hn same nf1 by (simp add: self2_def setitem_def Let_def)
  have nf2: "normalize_fn self2 = normalize_fn self"
    using keys vals hn same nf1 by (simp add: self2_def setitem_def Let_def)
  have n2: "map_of (normalized_to_original_keys_dict self2) ?nk =
      Some (set_add k2 (set_add k1 ks0))"
    using keys vals hn same nf1 n1 by (simp add: self2_def setitem_def Let_def update_conv')
  have st2: "store self2 = AList.update ?nk v2 (store self1)"
    using keys vals hn same nf1 by (simp add: self2_def setitem_def Let_def)
  have d1: "distinct (map fst (store self1))"
    using dist by (simp add: st1 distinct_update)
  have f: "filter (\<lambda>p. fst p = ?nk) (store self2) = [(?nk, v2)]"
    using d1 by (simp add: st2 filter_update_distinct)
  have g: "fst (getitem self2 k1) = Inr v2"
    using hn by (simp add: getitem_def nf2 st2 update_conv')
  have o: "original_keys self2 k1 = Inr (set_add k2 (set_add k1 ks0))"
    using hn by (simp add: original_keys_def nf2 n2)
  have "set (set_add k2 (set_add k1 ks0)) = set ks0 \<union> {k1, k2}"
    by (auto simp: set_set_add)
  with s1 s2 f g o0 o show ?thesis by blast
qed

theorem setitem_twice_witness:
  "normalize_string_default (PStr ''a'') = normalize_string_default (PStr ''a-'') \<and>
   (\<exists>self1 self2 ks0 ks.
      setitem
        \<lparr>store = [(PStr ''A'', PInt 0)],
         original_to_normalized_key_dict = [(PStr ''A'', PStr ''A'')],
         normalized_to_original_keys_dict = [(PStr ''A'', [PStr ''A''])],
         normalize_fn = normalize_string_default, default_value_fn = None\<rparr>
        (PStr ''a'') (PInt 1) = (Inr (), self1) \<and>
      setitem self1 (PStr ''a-'') (PInt 2) = (Inr (), self2) \<and>
      filter (\<lambda>p. fst p = PStr ''A'') (store self2) = [(PStr ''A'', PInt 2)] \<and>
      fst (getitem self2 (PStr ''a'')) = Inr (PInt 2) \<and>
      original_keys
        \<lparr>store = [(PStr ''A'', PInt 0)],
         original_to_normalized_key_dict = [(PStr ''A'', PStr ''A'')],
         normalized_to_original_keys_dict = [(PStr ''A'', [PStr ''A''])],
         normalize_fn = normalize_string_default, default_value_fn = None\<rparr>
        (PStr ''a'') = Inr ks0 \<and>
      original_keys self2 (PStr ''a'') = Inr ks \<and>
      set ks = set ks0 \<union> {PStr ''a'', PStr ''a-''})"
proof -
  let ?D = "\<lparr>store = [(PStr ''A'', PInt 0)],
         original_to_normalized_key_dict = [(PStr ''A'', PStr ''A'')],
         normalized_to_original_keys_dict = [(PStr ''A'', [PStr ''A''])],
         normalize_fn = normalize_string_default, default_value_fn = None\<rparr>"
  have n1: "normalize_string_default (PStr ''a'') = PStr ''A''"
    by code_simp
  have n2: "normalize_string_default (PStr ''a-'') = PStr ''A''"
    by code_simp
  have same: "normalize_fn ?D (PStr ''a'') = normalize_fn ?D (PStr ''a-'')"
    by (simp add: n1 n2)
  have hn: "hashable (normalize_fn ?D (PStr ''a''))"
    by (simp add: n1)
  have dist: "distinct (map fst (store ?D))"
    by simp
  have "PStr ''a'' \<noteq> PNone" "PStr ''a-'' \<noteq> PNone"
    "hashable (PStr ''a'')" "hashable (PStr ''a-'')"
    "PInt 1 \<noteq> PNone" "PInt 2 \<noteq> PNone"
    by simp_all
  from setitem_twice [OF this same hn dist]
  show ?thesis by (simp add: n1 n2)
qed

text \<open>
  C7. Let the normalized form of the key \<open>k\<close> be absent from the store. Without a
  factory, the lookup raises \<open>KeyError(k)\<close>, with the original key, and leaves the
  container as it was. With a factory, the lookup returns the default value, the store
  has it as a new last entry under the normalized key, and \<open>k in d\<close> is true afterwards.
  With the factory \<open>set\<close> the default value is the empty set.
\<close>

theorem getitem_missing:
  assumes hn: "hashable (normalize_fn self k)"
    and miss: "map_of (store self) (normalize_fn self k) = None"
  shows "(default_value_fn self = None \<longrightarrow> getitem self k = (Inl (KeyError k), self)) \<and>
         (\<forall>dv. default_value_fn self = Some dv \<longrightarrow>
            fst (getitem self k) = Inr dv \<and>
            store (snd (getitem self k)) = store self @ [(normalize_fn self k, dv)] \<and>
            contains (snd (getitem self k)) k = Inr True)"
  using hn miss by (auto simp: getitem_def contains_def update_absent)

theorem getitem_missing_witness:
  "getitem
     \<lparr>store = [], original_to_normalized_key_dict = [],
      normalized_to_original_keys_dict = [],
      normalize_fn = normalize_string_default, default_value_fn = None\<rparr> (PStr ''a'') =
     (Inl (KeyError (PStr ''a'')),
      \<lparr>store = [], original_to_normalized_key_dict = [],
       normalized_to_original_keys_dict = [],
       normalize_fn = normalize_string_default, default_value_fn = None\<rparr>) \<and>
   fst (getitem
     \<lparr>store = [], original_to_normalized_key_dict = [],
      normalized_to_original_keys_dict = [],
      normalize_fn = normalize_string_default, default_value_fn = Some (PSet [])\<rparr>
     (PStr ''a'')) = Inr (PSet []) \<and>
   store (snd (getitem
     \<lparr>store = [], original_to_normalized_key_dict = [],
      normalized_to_original_keys_dict = [],
      normalize_fn = normalize_string_default, default_value_fn = Some (PSet [])\<rparr>
     (PStr ''a''))) = [(PStr ''A'', PSet [])] \<and>
   contains (snd (getitem
     \<lparr>store = [], original_to_normalized_key_dict = [],
      normalized_to_original_keys_dict = [],
      normalize_fn = normalize_string_default, default_value_fn = Some (PSet [])\<rparr>
     (PStr ''a''))) (PStr ''a'') = Inr True"
proof -
  let ?N = "\<lparr>store = [], original_to_normalized_key_dict = [],
      normalized_to_original_keys_dict = [],
      normalize_fn = normalize_string_default, default_value_fn = None\<rparr>"
  let ?S = "\<lparr>store = [], original_to_normalized_key_dict = [],
      normalized_to_original_keys_dict = [],
      normalize_fn = normalize_string_default, default_value_fn = Some (PSet [])\<rparr>"
  have n: "normalize_string_default (PStr ''a'') = PStr ''A''"
    by code_simp
  have hN: "hashable (normalize_fn ?N (PStr ''a''))" and hS: "hashable (normalize_fn ?S (PStr ''a''))"
    by (simp_all add: n)
  have mN: "map_of (store ?N) (normalize_fn ?N (PStr ''a'')) = None"
    and mS: "map_of (store ?S) (normalize_fn ?S (PStr ''a'')) = None"
    by simp_all
  from getitem_missing [OF hN mN] getitem_missing [OF hS mS]
  show ?thesis by (simp add: n)
qed

subsection \<open>Original keys\<close>

lemma py_format_original_key:
  "py_format original_key_format [x] = Inl TypeError"
  by (simp add: py_format_def original_key_format_def)

lemma original_key_cases:
  "original_keys self k = Inr ks \<Longrightarrow>
   original_key self k =
     (if ks = [] then Inl (KeyError k)
      else if length ks > 1 then Inl TypeError
      else Inr (hd ks))"
  by (simp add: original_key_def py_format_original_key)

text \<open>
  C3. With the two original keys \<open>"a"\<close> and \<open>"A"\<close> under the normalized key \<open>"A"\<close>,
  \<open>original_key("a")\<close> raises \<open>TypeError\<close>: the message of the intended \<open>ValueError\<close>
  has two conversions and gets one argument, so the \<open>%\<close> operator fails before the
  \<open>ValueError\<close> is built. A key without original keys raises \<open>KeyError\<close> with the key,
  and a single original key is returned.
\<close>

theorem original_key_ambiguous_raises_TypeError:
  "then_original_key
     (NormalizingDictionary [(PStr ''a'', PInt 1), (PStr ''A'', PInt 2)]
        normalize_string_default None) (PStr ''a'') = Inl TypeError \<and>
   then_original_key
     (NormalizingDictionary [(PStr ''a'', PInt 1), (PStr ''A'', PInt 2)]
        normalize_string_default None) (PStr ''b'') = Inl (KeyError (PStr ''b'')) \<and>
   then_original_key
     (NormalizingDictionary [(PStr ''a'', PInt 1)]
        normalize_string_default None) (PStr ''A'') = Inr (PStr ''a'')"
  by code_simp

subsection \<open>The invariant and \<open>invert\<close>\<close>

lemma getitem_indexes:
  "original_to_normalized_key_dict (snd (getitem self k)) = original_to_normalized_key_dict self \<and>
   normalized_to_original_keys_dict (snd (getitem self k)) = normalized_to_original_keys_dict self \<and>
   normalize_fn (snd (getitem self k)) = normalize_fn self \<and>
   default_value_fn (snd (getitem self k)) = default_value_fn self"
  by (simp add: getitem_def Let_def split: option.splits)

lemma invert_values_indexes:
  "invert_values vs k result = Inr r \<Longrightarrow>
   original_to_normalized_key_dict r = original_to_normalized_key_dict result \<and>
   normalized_to_original_keys_dict r = normalized_to_original_keys_dict result \<and>
   normalize_fn r = normalize_fn result \<and>
   default_value_fn r = default_value_fn result"
proof (induction vs arbitrary: result)
  case Nil
  then show ?case by simp
next
  case (Cons vi vs)
  obtain out result' where g: "getitem result vi = (out, result')"
    by (cases "getitem result vi")
  from Cons.prems g obtain obj obj' where
    out: "out = Inr obj" and add: "method_add obj k = Inr obj'" and
    rest: "invert_values vs k
             (result'\<lparr>store := AList.update (normalize_fn result' vi) obj' (store result')\<rparr>) = Inr r"
    by (auto split: sum.splits)
  from getitem_indexes [of result vi] g have
    "original_to_normalized_key_dict result' = original_to_normalized_key_dict result"
    "normalized_to_original_keys_dict result' = normalized_to_original_keys_dict result"
    "normalize_fn result' = normalize_fn result"
    "default_value_fn result' = default_value_fn result"
    by simp_all
  with Cons.IH [OF rest] show ?case by simp
qed

lemma invert_loop_indexes:
  "invert_loop pairs result = Inr r \<Longrightarrow>
   original_to_normalized_key_dict r = original_to_normalized_key_dict result \<and>
   normalized_to_original_keys_dict r = normalized_to_original_keys_dict result \<and>
   normalize_fn r = normalize_fn result \<and>
   default_value_fn r = default_value_fn result"
proof (induction pairs result rule: invert_loop.induct)
  case (1 result)
  then show ?case by simp
next
  case (2 e uu result)
  then show ?case by simp
next
  case (3 k v rest result)
  from "3.prems" obtain result' where
    a: "invert_values (values_of v) k result = Inr result'" and
    b: "invert_loop rest result' = Inr r"
    by (auto split: sum.splits)
  from "3.IH" [OF a b] invert_values_indexes [OF a] show ?case by simp
qed

lemma invert_indexes:
  assumes "fst (invert self) = Inr result"
  shows "original_to_normalized_key_dict result = [] \<and>
         normalized_to_original_keys_dict result = [] \<and>
         normalize_fn result = normalize_fn self \<and>
         default_value_fn result = Some (PSet [])"
proof -
  obtain pairs self' where i: "items self = (pairs, self')"
    by (cases "items self")
  with assms have "invert_loop pairs
             \<lparr>store = [], original_to_normalized_key_dict = [],
              normalized_to_original_keys_dict = [],
              normalize_fn = normalize_fn self, default_value_fn = Some (PSet [])\<rparr> = Inr result"
    by (simp add: invert_def NormalizingDictionary_def)
  from invert_loop_indexes [OF this] show ?thesis by simp
qed

lemma invert_twice_raises:
  assumes "fst (invert self) = Inr result" and "store result \<noteq> []"
  shows "fst (invert result) = Inl AssertionError"
proof -
  from invert_indexes [OF assms(1)] have e: "normalized_to_original_keys_dict result = []"
    by simp
  from assms(2) obtain k v rest where s: "store result = (k, v) # rest"
    by (cases "store result") auto
  show ?thesis
    by (simp add: invert_def NormalizingDictionary_def items_def keys_aligned_with_values_def
        key_sets_aligned_with_values_def e s split: prod.splits)
qed

text \<open>
  Insertion keeps the invariant, and so a container that a constructor returns, also
  through \<open>map_values\<close> or \<open>map_keys\<close>, satisfies it.
\<close>

lemma set_add_not_Nil: "set_add k ks \<noteq> []"
  by (auto simp: set_add_def)

lemma setitem_invariant:
  assumes "invariant self"
  shows "invariant (snd (setitem self k v))"
proof -
  have "invariant (self\<lparr>original_to_normalized_key_dict := d\<rparr>)" for d
    using assms by (simp add: invariant_def)
  moreover have "invariant
     (self\<lparr>original_to_normalized_key_dict := d,
            normalized_to_original_keys_dict :=
              AList.update nk (set_add k ks) (normalized_to_original_keys_dict self),
            store := AList.update nk v (store self)\<rparr>)" for d nk ks
    using assms
    by (auto simp: invariant_def list_all_iff update_conv' dom_update set_add_not_Nil
        split: option.splits)
  ultimately show ?thesis
    using assms by (simp add: setitem_def Let_def)
qed

lemma update_pairs_invariant:
  "invariant self \<Longrightarrow> invariant (snd (update_pairs self pairs))"
proof (induction pairs arbitrary: self)
  case Nil
  then show ?case by simp
next
  case (Cons p pairs)
  obtain k v where p: "p = (k, v)" by (cases p)
  obtain out self' where s: "setitem self k v = (out, self')" by (cases "setitem self k v")
  from setitem_invariant [OF Cons.prems, of k v] s have i: "invariant self'" by simp
  show ?case
  proof (cases out)
    case (Inl e)
    with p s i show ?thesis by simp
  next
    case (Inr u)
    with p s Cons.IH [OF i] show ?thesis by simp
  qed
qed

lemma NormalizingDictionary_invariant:
  assumes "NormalizingDictionary pairs nf dv = Inr self"
  shows "invariant self"
proof -
  let ?E = "\<lparr>store = [], original_to_normalized_key_dict = [],
              normalized_to_original_keys_dict = [],
              normalize_fn = nf, default_value_fn = dv\<rparr>"
  have "invariant ?E" by (simp add: invariant_def)
  from update_pairs_invariant [OF this, of pairs] assms show ?thesis
    by (auto simp: NormalizingDictionary_def split: prod.splits sum.splits)
qed

lemma map_values_invariant:
  "fst (map_values self fn) = Inr result \<Longrightarrow> invariant result"
  by (auto simp: map_values_def split: prod.splits sum.splits
      dest: NormalizingDictionary_invariant)

lemma map_keys_invariant:
  "fst (map_keys self fn) = Inr result \<Longrightarrow> invariant result"
  by (auto simp: map_keys_def split: prod.splits sum.splits
      dest: NormalizingDictionary_invariant)

text \<open>
  C4. A lookup that takes the default path breaks the invariant: in a new container with
  the factory \<open>set\<close>, the lookup of \<open>"a"\<close> returns the empty set and stores it under
  \<open>"A"\<close>, a key of the store without any original key. \<open>invert\<close> fills its result by
  such lookups, so the result of inverting the container of \<open>("a", 1)\<close>, which satisfies
  the invariant, does not satisfy it.
\<close>

theorem default_lookup_breaks_invariant:
  "invariant
     \<lparr>store = [], original_to_normalized_key_dict = [],
      normalized_to_original_keys_dict = [],
      normalize_fn = normalize_string_default, default_value_fn = Some (PSet [])\<rparr> \<and>
   fst (getitem
     \<lparr>store = [], original_to_normalized_key_dict = [],
      normalized_to_original_keys_dict = [],
      normalize_fn = normalize_string_default, default_value_fn = Some (PSet [])\<rparr>
     (PStr ''a'')) = Inr (PSet []) \<and>
   \<not> invariant (snd (getitem
     \<lparr>store = [], original_to_normalized_key_dict = [],
      normalized_to_original_keys_dict = [],
      normalize_fn = normalize_string_default, default_value_fn = Some (PSet [])\<rparr>
     (PStr ''a''))) \<and>
   then_invariant
     (NormalizingDictionary [(PStr ''a'', PInt 1)] normalize_string_default None) = Inr True \<and>
   then_invariant (then_invert
     (NormalizingDictionary [(PStr ''a'', PInt 1)] normalize_string_default None)) = Inr False"
  by code_simp

text \<open>
  C5. Inverting the container of \<open>("a", 1)\<close> gives the store \<open>{1: {"a"}}\<close>; inverting
  that result raises \<open>AssertionError\<close>, from the assertion of \<open>keys_aligned_with_values\<close>,
  because the key 1 has no original key.
\<close>

theorem invert_twice_fails:
  "then_store (then_invert
     (NormalizingDictionary [(PStr ''a'', PInt 1)] normalize_string_default None)) =
     Inr [(PInt 1, PSet [PStr ''a''])] \<and>
   then_store (then_invert (then_invert
     (NormalizingDictionary [(PStr ''a'', PInt 1)] normalize_string_default None))) =
     Inl AssertionError"
  by code_simp

text \<open>
  C10. In a container returned by \<open>invert\<close> both indexes of original keys are empty, so
  \<open>original_keys(k)\<close> returns the empty set for every key \<open>k\<close> (an object whose normalized
  form can be hashed, as a lookup in a \<open>dict\<close> needs).
\<close>

theorem inverted_original_keys_empty:
  assumes "fst (invert self) = Inr result"
    and "hashable (normalize_fn result k)"
  shows "original_keys result k = Inr [] \<and>
         normalized_to_original_keys_dict result = [] \<and>
         original_to_normalized_key_dict result = []"
  using invert_indexes [OF assms(1)] assms(2) by (simp add: original_keys_def)

theorem inverted_original_keys_empty_witness:
  "fst (invert \<lparr>store = [(PStr ''A'', PInt 1)],
                 original_to_normalized_key_dict = [(PStr ''a'', PStr ''A'')],
                 normalized_to_original_keys_dict = [(PStr ''A'', [PStr ''a''])],
                 normalize_fn = normalize_string_default, default_value_fn = None\<rparr>)
     = Inr \<lparr>store = [(PInt 1, PSet [PStr ''a''])],
            original_to_normalized_key_dict = [],
            normalized_to_original_keys_dict = [],
            normalize_fn = normalize_string_default, default_value_fn = Some (PSet [])\<rparr> \<and>
   hashable (normalize_string_default (PInt 1)) \<and>
   original_keys \<lparr>store = [(PInt 1, PSet [PStr ''a''])],
            original_to_normalized_key_dict = [],
            normalized_to_original_keys_dict = [],
            normalize_fn = normalize_string_default, default_value_fn = Some (PSet [])\<rparr> (PInt 1) = Inr []"
proof -
  let ?D = "\<lparr>store = [(PStr ''A'', PInt 1)],
                 original_to_normalized_key_dict = [(PStr ''a'', PStr ''A'')],
                 normalized_to_original_keys_dict = [(PStr ''A'', [PStr ''a''])],
                 normalize_fn = normalize_string_default, default_value_fn = None\<rparr>"
  let ?R = "\<lparr>store = [(PInt 1, PSet [PStr ''a''])],
            original_to_normalized_key_dict = [],
            normalized_to_original_keys_dict = [],
            normalize_fn = normalize_string_default, default_value_fn = Some (PSet [])\<rparr>"
  have n: "normalize_string_default (PInt 1) = PInt 1"
    by (simp add: normalize_string_default_def normalize_string_def)
  have i: "fst (invert ?D) = Inr ?R"
    by (simp add: invert_def NormalizingDictionary_def items_def keys_aligned_with_values_def
        key_sets_aligned_with_values_def values_of_def getitem_def method_add_def set_add_def n)
  have h: "hashable (normalize_fn ?R (PInt 1))"
    by (simp add: n)
  from inverted_original_keys_empty [OF i h] i h show ?thesis by simp
qed

end
